theory Spec2Isabelle
  imports Complex_Main "HOL-Library.Char_ord" "HOL-Library.List_Lexorder"
    "HOL-Library.Product_Lexorder"
begin

section \<open>Errors\<close>

text \<open>
  The program defines no exception of its own: every failure is an exception of Python or
  of a library, and it is never caught, so it ends the run. An exception is a value here,
  and a function that can raise returns \<open>error + 'a\<close> with \<open>Inl\<close> for the exception.
\<close>

datatype error =
    FileNotFoundError
  | ParseError
  | TypeError
  | KeyError
  | ZeroDivisionError
  | ValueError

section \<open>The colour cycler\<close>

text \<open>
  \<^verbatim>\<open>
  def _extend_colors(colors: List[str], n_entries: int) -> List[str]:
      q, r = divmod(n_entries, len(colors))
      extended_colors = q * colors + colors[:r]
      return extended_colors
  \<close>
  Python's \<open>divmod\<close> on integers rounds the quotient down, as \<open>div\<close> and \<open>mod\<close> on
  \<open>int\<close> do, and raises on a zero divisor. \<open>q * colors\<close> is the empty list for
  \<open>q \<le> 0\<close>; \<open>colors[:r]\<close> counts a negative \<open>r\<close> from the end of the list.
\<close>

definition divmod :: "int \<Rightarrow> int \<Rightarrow> error + int \<times> int" where
  "divmod a b = (if b = 0 then Inl ZeroDivisionError else Inr (a div b, a mod b))"

definition list_mul :: "int \<Rightarrow> 'a list \<Rightarrow> 'a list" where
  "list_mul q xs = concat (replicate (nat q) xs)"

definition slice_to :: "'a list \<Rightarrow> int \<Rightarrow> 'a list" where
  "slice_to xs r =
     (if r < 0 then take (nat (int (length xs) + r)) xs else take (nat r) xs)"

definition extend_colors :: "'c list \<Rightarrow> int \<Rightarrow> error + 'c list" where
  "extend_colors colors n_entries =
     (case divmod n_entries (int (length colors)) of
        Inl e \<Rightarrow> Inl e
      | Inr (q, r) \<Rightarrow> Inr (list_mul q colors @ slice_to colors r))"

section \<open>The colour loader\<close>

text \<open>
  \<^verbatim>\<open>
  def _read_colors(filename: str) -> List[str]:
      with open(filename) as f:
          colors = json.load(f)
      return [color["color"] for color in colors]
  \<close>
  The file system is a map from paths to the text of files. \<open>json.load\<close> is a library
  function: the parser is a parameter (field \<open>json_load\<close> of the record of library
  functions below) that gives a JSON document or raises. What the comprehension does with
  the document is Python's: iterating a list gives its elements, iterating an object its
  keys, iterating a string its characters, anything else is not iterable; subscripting
  with the string \<open>"color"\<close> succeeds on an object that has the key and raises otherwise.
  An object keeps the last value of a repeated key, at the position of its first
  occurrence.
\<close>

datatype json =
    JNull
  | JBool bool
  | JNum real
  | JStr string
  | JArr "json list"
  | JObj "(string \<times> json) list"

fun py_iter :: "json \<Rightarrow> error + json list" where
  "py_iter (JArr xs) = Inr xs"
| "py_iter (JObj kvs) = Inr (map JStr (rev (remdups (rev (map fst kvs)))))"
| "py_iter (JStr s) = Inr (map (\<lambda>c. JStr [c]) s)"
| "py_iter _ = Inl TypeError"

fun subscript_color :: "json \<Rightarrow> error + json" where
  "subscript_color (JObj kvs) =
     (case map_of (rev kvs) ''color'' of None \<Rightarrow> Inl KeyError | Some v \<Rightarrow> Inr v)"
| "subscript_color _ = Inl TypeError"

fun comprehension :: "('a \<Rightarrow> error + 'b) \<Rightarrow> 'a list \<Rightarrow> error + 'b list" where
  "comprehension f [] = Inr []"
| "comprehension f (x # xs) =
     (case f x of
        Inl e \<Rightarrow> Inl e
      | Inr y \<Rightarrow> (case comprehension f xs of Inl e \<Rightarrow> Inl e | Inr ys \<Rightarrow> Inr (y # ys)))"

section \<open>The data frames\<close>

text \<open>
  The rows of the raw data set, as \<open>pd.read_csv\<close> gives them: the four columns of the
  location key and the columns \<open>issue\<close> and \<open>year\<close>. A cell of a key column can be
  missing (an empty field of the file, NaN in the frame): \<open>None\<close>. The coordinates are
  floating-point numbers; the program only compares and sorts them, so their type is a
  parameter \<open>'f\<close> with a linear order, which stands for the numbers that are not NaN.
  A cell of \<open>issue\<close> or \<open>year\<close> is an integer or a string.
\<close>

record 'f location_key =
  city :: "string option"
  country :: "string option"
  latitude :: "'f option"
  longitude :: "'f option"

datatype scalar = IntV int | StrV string

record 'f event_record = "'f location_key" +
  issue :: scalar
  year :: scalar

text \<open>
  The frame that grouping returns and the frame that the join returns have the key
  columns and two more columns. In the program both are again called \<open>issue\<close> and
  \<open>year\<close>; they hold the strings that the aggregation builds, and are the fields
  \<open>issues\<close> and \<open>years\<close> here. In a row of the grouped frame they are strings
  (\<open>'s = string\<close>); in a row of the joined frame they can be missing
  (\<open>'s = string option\<close>). \<open>assign\<close> adds the column \<open>color\<close>.
\<close>

record ('f, 's) summary_row = "'f location_key" +
  issues :: 's
  years :: 's

record ('f, 'c) annotated = "('f, string option) summary_row" +
  color :: 'c

subsection \<open>Python's \<open>str\<close> and \<open>join\<close>\<close>

function digits :: "nat \<Rightarrow> string" where
  "digits n =
     (if n < 10 then [char_of (48 + n)] else digits (n div 10) @ [char_of (48 + n mod 10)])"
  by pat_completeness auto
termination
  by (relation "measure (\<lambda>n. n)") auto

declare digits.simps [simp del]

definition str_int :: "int \<Rightarrow> string" where
  "str_int i = (if i < 0 then CHR ''-'' # digits (nat (- i)) else digits (nat i))"

fun str :: "scalar \<Rightarrow> string" where
  "str (IntV i) = str_int i"
| "str (StrV s) = s"

fun sep_join :: "string \<Rightarrow> string list \<Rightarrow> string" where
  "sep_join sep [] = []"
| "sep_join sep [x] = x"
| "sep_join sep (x # y # ys) = x @ sep @ sep_join sep (y # ys)"

section \<open>The grouper\<close>

text \<open>
  \<^verbatim>\<open>
  def _group_same_hosts(df_ejcs: pd.DataFrame) -> pd.DataFrame:
      df_ejcs_grouped = (
          df_ejcs.groupby(["city", "country", "latitude", "longitude"])
          .agg(
              {
                  "issue": lambda x: " | ".join(map(str, x)),
                  "year": lambda x: " | ".join(map(str, x)),
              }
          )
          .reset_index()
      )
      return df_ejcs_grouped
  \<close>
  \<open>groupby\<close> is called with its defaults: \<open>dropna=True\<close> leaves out every row with a
  missing cell in a key column, and \<open>sort=True\<close> orders the groups by their keys. A group
  holds its rows in the order of the frame. \<open>reset_index\<close> turns the keys into columns
  again.
\<close>

definition key_of :: "('f, 'z) location_key_scheme \<Rightarrow> (string \<times> string \<times> 'f \<times> 'f) option" where
  "key_of r =
     (case (city r, country r, latitude r, longitude r) of
        (Some a, Some b, Some c, Some d) \<Rightarrow> Some (a, b, c, d)
      | _ \<Rightarrow> None)"

definition group_keys ::
  "('f::linorder, 'z) location_key_scheme list \<Rightarrow> (string \<times> string \<times> 'f \<times> 'f) list" where
  "group_keys df = sort (remdups (List.map_filter key_of df))"

definition agg_join :: "scalar list \<Rightarrow> string" where
  "agg_join x = sep_join '' | '' (map str x)"

definition group_rows ::
  "('f, 'z) location_key_scheme list \<Rightarrow> string \<times> string \<times> 'f \<times> 'f \<Rightarrow>
   ('f, 'z) location_key_scheme list" where
  "group_rows df k = filter (\<lambda>r. key_of r = Some k) df"

definition summarise ::
  "'f event_record list \<Rightarrow> string \<times> string \<times> 'f \<times> 'f \<Rightarrow> ('f, string) summary_row" where
  "summarise df k =
     (case k of (a, b, c, d) \<Rightarrow>
        \<lparr>city = Some a, country = Some b, latitude = Some c, longitude = Some d,
         issues = agg_join (map issue (group_rows df k)),
         years = agg_join (map year (group_rows df k))\<rparr>)"

definition group_same_hosts ::
  "('f::linorder) event_record list \<Rightarrow> ('f, string) summary_row list" where
  "group_same_hosts df_ejcs = map (summarise df_ejcs) (group_keys df_ejcs)"

section \<open>The joiner\<close>

text \<open>
  \<^verbatim>\<open>
  def _join_ejcs_grouped(
      df_ejcs: pd.DataFrame, df_ejcs_grouped: pd.DataFrame
  ) -> pd.DataFrame:
      df_ejcs_joined = df_ejcs.filter(["city", "country", "latitude", "longitude"]).merge(
          right=df_ejcs_grouped,
          on=["city", "country", "latitude", "longitude"],
          how="left",
      )
      return df_ejcs_joined
  \<close>
  \<open>filter\<close> keeps the four key columns of the left frame and drops the others.
  \<open>merge\<close> with \<open>how="left"\<close> goes through the left rows in their order; a left row
  gives one row for each right row with the same key, in the order of the right frame,
  and one row with missing cells when no right row has its key. Two missing cells of a key
  column count as equal in a merge.

  Before it joins, \<open>merge\<close> compares the types (dtypes) of each key column in the two
  frames, unless exactly one of the frames has no row, and raises \<open>ValueError\<close> for a
  column of numbers on one side and a column of strings on the other. The dtype of a
  column is the one that \<open>read_csv\<close> infers from its cells: a column with no cell is
  an object column; a column of coordinates is numeric; a column of \<open>city\<close> or
  \<open>country\<close> is a string column when one of its cells is present, and numeric
  (\<open>float64\<close>, all NaN) when every cell is missing.
\<close>

datatype dtype = Numeric | Str | Object

definition text_dtype :: "string option list \<Rightarrow> dtype" where
  "text_dtype col =
     (if col = [] then Object else if list_all (\<lambda>c. c = None) col then Numeric else Str)"

definition number_dtype :: "'f option list \<Rightarrow> dtype" where
  "number_dtype col = (if col = [] then Object else Numeric)"

definition key_dtypes :: "('f, 'z) location_key_scheme list \<Rightarrow> dtype list" where
  "key_dtypes df =
     [text_dtype (map city df), text_dtype (map country df),
      number_dtype (map latitude df), number_dtype (map longitude df)]"

definition coerce_merge_keys ::
  "('f, 'y) location_key_scheme list \<Rightarrow> ('f, 'z) location_key_scheme list \<Rightarrow> error + unit" where
  "coerce_merge_keys left right =
     (if (left \<noteq> [] \<and> right = []) \<or> (left = [] \<and> right \<noteq> []) then Inr ()
      else if key_dtypes left = key_dtypes right then Inr ()
      else Inl ValueError)"

definition df_filter :: "('f, 'z) location_key_scheme list \<Rightarrow> 'f location_key list" where
  "df_filter df = map location_key.truncate df"

definition same_key :: "('f, 'y) location_key_scheme \<Rightarrow> ('f, 'z) location_key_scheme \<Rightarrow> bool" where
  "same_key l g \<longleftrightarrow>
     city l = city g \<and> country l = country g \<and> latitude l = latitude g \<and>
     longitude l = longitude g"

definition with_summary ::
  "'f location_key \<Rightarrow> string option \<Rightarrow> string option \<Rightarrow> ('f, string option) summary_row" where
  "with_summary l i y =
     \<lparr>city = city l, country = country l, latitude = latitude l, longitude = longitude l,
      issues = i, years = y\<rparr>"

definition merge_rows ::
  "'f location_key list \<Rightarrow> ('f, string) summary_row list \<Rightarrow>
   ('f, string option) summary_row list" where
  "merge_rows left right =
     concat (map (\<lambda>l.
       case filter (same_key l) right of
         [] \<Rightarrow> [with_summary l None None]
       | g # gs \<Rightarrow> map (\<lambda>m. with_summary l (Some (issues m)) (Some (years m))) (g # gs))
       left)"

definition merge_left ::
  "'f location_key list \<Rightarrow> ('f, string) summary_row list \<Rightarrow>
   error + ('f, string option) summary_row list" where
  "merge_left left right =
     (case coerce_merge_keys left right of
        Inl e \<Rightarrow> Inl e
      | Inr _ \<Rightarrow> Inr (merge_rows left right))"

definition join_ejcs_grouped ::
  "('f, 'z) location_key_scheme list \<Rightarrow> ('f, string) summary_row list \<Rightarrow>
   error + ('f, string option) summary_row list" where
  "join_ejcs_grouped df_ejcs df_ejcs_grouped = merge_left (df_filter df_ejcs) df_ejcs_grouped"

section \<open>The prepare step\<close>

text \<open>
  \<^verbatim>\<open>
  def prepare_ejcs(filename: str, colors: List[str]) -> pd.DataFrame:
      df_ejcs_raw = pd.read_csv(filename, sep=";")
      df_ejcs_grouped = _group_same_hosts(df_ejcs=df_ejcs_raw)
      df_ejcs = _join_ejcs_grouped(df_ejcs=df_ejcs_raw, df_ejcs_grouped=df_ejcs_grouped)

      extended_colors = _extend_colors(colors=colors, n_entries=len(df_ejcs_raw))
      return df_ejcs.assign(color=extended_colors)
  \<close>
  \<open>assign\<close> with a list raises when the list is not as long as the frame. The parser of
  the data set is the field \<open>read_csv\<close> of the library; the renderers of a figure are
  its fields \<open>to_html\<close> and \<open>to_image\<close>. The plotting library puts a random
  identifier into every HTML text that it renders: \<open>to_html\<close> takes it as an argument.

  The world of a run: the files, the folders that exist, the number of figures shown, the
  random identifiers that are drawn one after the other, and how many have been drawn.
\<close>

record ('f, 'c) figure =
  fig_data :: "('f, 'c) annotated list"
  fig_width :: "int option"
  fig_height :: "int option"

record 'f library =
  json_load :: "string \<Rightarrow> error + json"
  read_csv :: "string \<Rightarrow> error + 'f event_record list"
  to_html :: "('f, json) figure \<Rightarrow> string \<Rightarrow> string"
  to_image :: "('f, json) figure \<Rightarrow> int \<Rightarrow> int \<Rightarrow> string"

record world =
  files :: "string \<rightharpoonup> string"
  folders :: "string \<Rightarrow> bool"
  shown :: nat
  div_id :: "nat \<Rightarrow> string"
  drawn :: nat

definition open_read :: "world \<Rightarrow> string \<Rightarrow> error + string" where
  "open_read w filename =
     (case files w filename of None \<Rightarrow> Inl FileNotFoundError | Some txt \<Rightarrow> Inr txt)"

definition read_colors :: "('f, 'z) library_scheme \<Rightarrow> world \<Rightarrow> string \<Rightarrow> error + json list" where
  "read_colors L w filename =
     (case open_read w filename of
        Inl e \<Rightarrow> Inl e
      | Inr txt \<Rightarrow>
          (case json_load L txt of
             Inl e \<Rightarrow> Inl e
           | Inr colors \<Rightarrow>
               (case py_iter colors of
                  Inl e \<Rightarrow> Inl e
                | Inr items \<Rightarrow> comprehension subscript_color items)))"

definition pd_read_csv ::
  "('f, 'z) library_scheme \<Rightarrow> world \<Rightarrow> string \<Rightarrow> error + 'f event_record list" where
  "pd_read_csv L w filename =
     (case open_read w filename of Inl e \<Rightarrow> Inl e | Inr txt \<Rightarrow> read_csv L txt)"

definition assign_color ::
  "('f, string option) summary_row list \<Rightarrow> 'c list \<Rightarrow> error + ('f, 'c) annotated list" where
  "assign_color df cs =
     (if length cs \<noteq> length df then Inl ValueError
      else Inr (map (\<lambda>(r, c). summary_row.extend r (annotated.fields c)) (zip df cs)))"

definition prepare_ejcs ::
  "('f::linorder, 'z) library_scheme \<Rightarrow> world \<Rightarrow> string \<Rightarrow> 'c list \<Rightarrow>
   error + ('f, 'c) annotated list" where
  "prepare_ejcs L w filename colors =
     (case pd_read_csv L w filename of
        Inl e \<Rightarrow> Inl e
      | Inr df_ejcs_raw \<Rightarrow>
          (let df_ejcs_grouped = group_same_hosts df_ejcs_raw
           in case join_ejcs_grouped df_ejcs_raw df_ejcs_grouped of
                Inl e \<Rightarrow> Inl e
              | Inr df_ejcs \<Rightarrow>
                  (case extend_colors colors (int (length df_ejcs_raw)) of
                     Inl e \<Rightarrow> Inl e
                   | Inr extended_colors \<Rightarrow> assign_color df_ejcs extended_colors)))"

section \<open>Rendering and output\<close>

text \<open>
  \<open>create_map\<close> hands the frame to the plotting library; the figure is the frame and
  the size of its layout. \<open>create_output\<close> sets the size, shows the figure and writes
  three files, in this order:
  \<^verbatim>\<open>
      fig.update_layout(width=width, height=height)
      if show_figure:
          fig.show(config=config)
      if save_figure:
          filename = "ejc_map"
          fig.write_html(f"{output_folder}/{filename}.html", include_plotlyjs="cdn", config=config)
          fig.write_html(f"index.html", include_plotlyjs="cdn", config=config)
          fig.write_image(f"{output_folder}/{filename}.webp", width=width, height=height, scale=1.0)
  \<close>
  A write into a folder that does not exist raises \<open>FileNotFoundError\<close>, and the later
  writes do not happen; a path with no folder part is in the working directory, which
  exists. \<open>write_html\<close> renders the text, with a fresh identifier, before it opens the
  file.
  \<^verbatim>\<open>
  def main():
      filename_colors = "resources/colors.json"
      filename_ejcs = "resources/list_of_ejcs.csv"
      width_px = 1000
      height_px = 800

      colors = _read_colors(filename=filename_colors)
      df_ejcs = prepare_ejcs(filename=filename_ejcs, colors=colors)
      fig = create_map(df_ejcs=df_ejcs)
      create_output(fig=fig, width=width_px, height=height_px, output_folder="output",
                    show_figure=True, save_figure=True)
  \<close>
\<close>

definition create_map :: "('f, 'c) annotated list \<Rightarrow> ('f, 'c) figure" where
  "create_map df_ejcs = \<lparr>fig_data = df_ejcs, fig_width = None, fig_height = None\<rparr>"

definition dirname :: "string \<Rightarrow> string" where
  "dirname path = rev (tl (dropWhile (\<lambda>c. c \<noteq> CHR ''/'') (rev path)))"

definition write_file :: "string \<Rightarrow> string \<Rightarrow> world \<Rightarrow> (error + unit) \<times> world" where
  "write_file path txt w =
     (if dirname path = [] \<or> folders w (dirname path)
      then (Inr (), w\<lparr>files := (files w)(path \<mapsto> txt)\<rparr>)
      else (Inl FileNotFoundError, w))"

definition write_html ::
  "('f, 'z) library_scheme \<Rightarrow> ('f, json) figure \<Rightarrow> string \<Rightarrow> world \<Rightarrow> (error + unit) \<times> world" where
  "write_html L fig path w =
     write_file path (to_html L fig (div_id w (drawn w))) (w\<lparr>drawn := drawn w + 1\<rparr>)"

definition write_image ::
  "('f, 'z) library_scheme \<Rightarrow> ('f, json) figure \<Rightarrow> string \<Rightarrow> int \<Rightarrow> int \<Rightarrow> world \<Rightarrow>
   (error + unit) \<times> world" where
  "write_image L fig path width height w = write_file path (to_image L fig width height) w"

definition create_output ::
  "('f, 'z) library_scheme \<Rightarrow> ('f, json) figure \<Rightarrow> int \<Rightarrow> int \<Rightarrow> string \<Rightarrow> bool \<Rightarrow> bool \<Rightarrow>
   world \<Rightarrow> (error + unit) \<times> world" where
  "create_output L fig width height output_folder show_figure save_figure w =
     (let fig' = fig\<lparr>fig_width := Some width, fig_height := Some height\<rparr>;
          w1 = (if show_figure then w\<lparr>shown := shown w + 1\<rparr> else w)
      in if save_figure then
           (case write_html L fig' (output_folder @ ''/'' @ ''ejc_map'' @ ''.html'') w1 of
              (Inl e, w2) \<Rightarrow> (Inl e, w2)
            | (Inr _, w2) \<Rightarrow>
                (case write_html L fig' ''index.html'' w2 of
                   (Inl e, w3) \<Rightarrow> (Inl e, w3)
                 | (Inr _, w3) \<Rightarrow>
                     write_image L fig' (output_folder @ ''/'' @ ''ejc_map'' @ ''.webp'')
                       width height w3))
         else (Inr (), w1))"

definition filename_colors :: string where
  "filename_colors = ''resources/colors.json''"

definition filename_ejcs :: string where
  "filename_ejcs = ''resources/list_of_ejcs.csv''"

definition main :: "('f::linorder, 'z) library_scheme \<Rightarrow> world \<Rightarrow> (error + unit) \<times> world" where
  "main L w =
     (case read_colors L w filename_colors of
        Inl e \<Rightarrow> (Inl e, w)
      | Inr colors \<Rightarrow>
          (case prepare_ejcs L w filename_ejcs colors of
             Inl e \<Rightarrow> (Inl e, w)
           | Inr df_ejcs \<Rightarrow>
               create_output L (create_map df_ejcs) 1000 800 ''output'' True True w))"

section \<open>The join, row by row\<close>

text \<open>
  A description used in the proofs: the row that the join of a frame with its own groups
  gives for a row \<open>r\<close> of the frame. It has the key columns of \<open>r\<close> and the strings of
  the group of \<open>r\<close>, or missing cells when a key cell of \<open>r\<close> is missing.
\<close>

definition joined_row ::
  "'f event_record list \<Rightarrow> ('f, 'z) location_key_scheme \<Rightarrow> ('f, string option) summary_row" where
  "joined_row df r =
     (case key_of r of
        None \<Rightarrow> with_summary (location_key.truncate r) None None
      | Some k \<Rightarrow>
          with_summary (location_key.truncate r)
            (Some (agg_join (map issue (group_rows df k))))
            (Some (agg_join (map year (group_rows df k)))))"

section \<open>Scenarios\<close>

text \<open>
  The data of the scenarios: two editions hosted at the same place, a data set with a row
  whose latitude is missing, a data set whose only row has no city, a palette with two
  colours. The coordinates are real numbers here.
\<close>

definition paris_rows :: "real event_record list" where
  "paris_rows =
     [\<lparr>city = Some ''Paris'', country = Some ''France'', latitude = Some 48.85,
       longitude = Some 2.35, issue = IntV 1, year = IntV 1990\<rparr>,
      \<lparr>city = Some ''Paris'', country = Some ''France'', latitude = Some 48.85,
       longitude = Some 2.35, issue = IntV 2, year = IntV 1995\<rparr>]"

definition partial_rows :: "real event_record list" where
  "partial_rows =
     [\<lparr>city = Some ''Paris'', country = Some ''France'', latitude = Some 48.85,
       longitude = Some 2.35, issue = IntV 1, year = IntV 1990\<rparr>,
      \<lparr>city = Some ''Oslo'', country = Some ''Norway'', latitude = None,
       longitude = Some 10.75, issue = IntV 2, year = IntV 1995\<rparr>]"


definition red_green :: json where
  "red_green = JArr [JObj [(''color'', JStr ''red'')], JObj [(''color'', JStr ''green'')]]"

definition scenario_library :: "json \<Rightarrow> real event_record list \<Rightarrow> real library" where
  "scenario_library palette rows =
     \<lparr>json_load = (\<lambda>txt. Inr palette), read_csv = (\<lambda>txt. Inr rows),
      to_html = (\<lambda>fig ident. ''<div id='' @ ident @ ''>''),
      to_image = (\<lambda>fig width height. ''RIFF'')\<rparr>"

definition scenario_world :: world where
  "scenario_world =
     \<lparr>files = [''resources/colors.json'' \<mapsto> ''[]'', ''resources/list_of_ejcs.csv'' \<mapsto> ''issue;year''],
      folders = (\<lambda>path. path = ''output''), shown = 0,
      div_id = (\<lambda>n. if n = 0 then ''a1'' else ''b2''), drawn = 0\<rparr>"

definition no_palette_world :: world where
  "no_palette_world =
     \<lparr>files = [''resources/list_of_ejcs.csv'' \<mapsto> ''issue;year''],
      folders = (\<lambda>path. path = ''output''), shown = 0,
      div_id = (\<lambda>n. if n = 0 then ''a1'' else ''b2''), drawn = 0\<rparr>"

section \<open>Theorems\<close>

subsection \<open>The colour cycler\<close>

lemma nth_concat_replicate:
  "i < k * length xs \<Longrightarrow> concat (replicate k xs) ! i = xs ! (i mod length xs)"
proof (induction k arbitrary: i)
  case 0
  then show ?case by simp
next
  case (Suc k)
  show ?case
  proof (cases "i < length xs")
    case True
    then show ?thesis by (simp add: nth_append)
  next
    case False
    then have ge: "length xs \<le> i" by simp
    with Suc.prems have "i - length xs < k * length xs" by simp
    then have "concat (replicate k xs) ! (i - length xs) = xs ! ((i - length xs) mod length xs)"
      by (rule Suc.IH)
    with ge False show ?thesis by (simp add: nth_append le_mod_geq)
  qed
qed

lemma length_concat_replicate:
  "length (concat (replicate k xs)) = k * length xs"
  by (induction k) simp_all

lemma extend_colors_run:
  assumes "colors \<noteq> []"
  shows "extend_colors colors (int n) =
           Inr (concat (replicate (n div length colors) colors) @ take (n mod length colors) colors)"
proof -
  let ?m = "length colors"
  from assms have m: "0 < ?m" by simp
  have q: "nat (int n div int ?m) = n div ?m"
    by (simp add: nat_div_distrib)
  have r: "nat (int n mod int ?m) = n mod ?m"
    by (simp add: nat_mod_distrib)
  have r0: "\<not> int n mod int ?m < 0"
    using m by (simp add: not_less)
  show ?thesis
    using m q r r0 by (simp add: extend_colors_def divmod_def list_mul_def slice_to_def)
qed

lemma cycle_length:
  assumes "colors \<noteq> []"
  shows "length (concat (replicate (n div length colors) colors) @ take (n mod length colors) colors) = n"
proof -
  from assms have "n mod length colors < length colors" by simp
  then show ?thesis by (simp add: length_concat_replicate min_def)
qed

lemma cycle_nth:
  assumes "colors \<noteq> []" and "i < n"
  shows "(concat (replicate (n div length colors) colors) @ take (n mod length colors) colors) ! i =
           colors ! (i mod length colors)"
proof -
  let ?m = "length colors"
  let ?q = "n div ?m" and ?r = "n mod ?m"
  from assms have rlt: "?r < ?m" by simp
  have lc: "length (concat (replicate ?q colors)) = ?q * ?m"
    by (rule length_concat_replicate)
  show ?thesis
  proof (cases "i < ?q * ?m")
    case True
    then show ?thesis
      using lc by (simp add: nth_append nth_concat_replicate)
  next
    case False
    define j where "j = i - ?q * ?m"
    from False have i: "i = ?q * ?m + j" by (simp add: j_def)
    have "n = ?q * ?m + ?r" by simp
    with assms(2) i have j: "j < ?r" by linarith
    with rlt have "i mod ?m = j" by (simp add: i)
    with j rlt lc False show ?thesis
      by (simp add: nth_append j_def)
  qed
qed

text \<open>
  Claim C2. For a palette that is not empty and a count \<open>n \<ge> 0\<close>, the cycler returns a
  list of exactly \<open>n\<close> colours; its element \<open>i\<close> is element \<open>i mod len(palette)\<close> of the
  palette, and the list is \<open>n div len(palette)\<close> copies of the palette followed by its first
  \<open>n mod len(palette)\<close> colours. The scenario (red, green cycled to length 5) is the
  witness.
\<close>

theorem extend_colors_cycles:
  assumes "colors \<noteq> []" and "0 \<le> n"
  shows "\<exists>ys. extend_colors colors n = Inr ys \<and> length ys = nat n \<and>
           (\<forall>i<nat n. ys ! i = colors ! (i mod length colors)) \<and>
           ys = concat (replicate (nat n div length colors) colors) @
                take (nat n mod length colors) colors"
proof -
  let ?ys = "concat (replicate (nat n div length colors) colors) @
             take (nat n mod length colors) colors"
  from assms(2) have n: "int (nat n) = n" by simp
  have "extend_colors colors (int (nat n)) = Inr ?ys"
    using assms(1) by (rule extend_colors_run)
  then have run: "extend_colors colors n = Inr ?ys"
    by (simp only: n)
  have len: "length ?ys = nat n"
    using assms(1) by (rule cycle_length)
  have nth: "\<forall>i<nat n. ?ys ! i = colors ! (i mod length colors)"
    using assms(1) by (simp add: cycle_nth)
  from run len nth show ?thesis by blast
qed

theorem extend_colors_cycles_witness:
  "[''red'', ''green''] \<noteq> [] \<and> (0::int) \<le> 5 \<and>
   extend_colors [''red'', ''green''] 5 = Inr [''red'', ''green'', ''red'', ''green'', ''red'']"
proof -
  have a: "[''red'', ''green''] \<noteq> []" and b: "(0::int) \<le> 5" by simp_all
  from extend_colors_cycles [OF a b] obtain ys where
    run: "extend_colors [''red'', ''green''] 5 = Inr ys" and
    ys: "ys = concat (replicate (nat 5 div length [''red'', ''green'']) [''red'', ''green'']) @
              take (nat 5 mod length [''red'', ''green'']) [''red'', ''green'']"
    by blast
  have "ys = [''red'', ''green'', ''red'', ''green'', ''red'']"
    unfolding ys by code_simp
  with run show ?thesis by simp
qed

subsection \<open>Grouping and joining\<close>

lemma set_group_keys: "set (group_keys df) = {k. \<exists>r\<in>set df. key_of r = Some k}"
  by (force simp: group_keys_def map_filter_def image_iff)

lemma distinct_group_keys: "distinct (group_keys df)"
  by (simp add: group_keys_def)

lemma key_of_Some_iff:
  "key_of r = Some (a, b, c, d) \<longleftrightarrow>
   city r = Some a \<and> country r = Some b \<and> latitude r = Some c \<and> longitude r = Some d"
  by (auto simp: key_of_def split: option.splits)

lemma key_of_summarise: "key_of (summarise df k) = Some k"
  by (cases k) (simp add: summarise_def key_of_def)

lemma key_of_truncate: "key_of (location_key.truncate r) = key_of r"
  by (simp add: key_of_def location_key.truncate_def)

lemma issues_summarise: "issues (summarise df k) = agg_join (map issue (group_rows df k))"
  by (cases k) (simp add: summarise_def)

lemma years_summarise: "years (summarise df k) = agg_join (map year (group_rows df k))"
  by (cases k) (simp add: summarise_def)

lemma same_key_summarise: "same_key l (summarise df k) \<longleftrightarrow> key_of l = Some k"
  by (cases k) (auto simp: same_key_def summarise_def key_of_Some_iff)

lemma filter_eq_distinct:
  "distinct ks \<Longrightarrow> filter (\<lambda>k. k = k0) ks = (if k0 \<in> set ks then [k0] else [])"
  by (induction ks) auto

text \<open>The summaries with the key of a row: none, or the one of its group.\<close>

lemma matches_of_row:
  "filter (same_key l) (group_same_hosts df) =
     (case key_of l of
        None \<Rightarrow> []
      | Some k \<Rightarrow> if k \<in> set (group_keys df) then [summarise df k] else [])"
proof (cases "key_of l")
  case None
  then show ?thesis
    by (simp add: group_same_hosts_def filter_map o_def same_key_summarise)
next
  case (Some k)
  have "same_key l (summarise df k') \<longleftrightarrow> k' = k" for k'
    using Some by (auto simp: same_key_summarise)
  then have "filter (same_key l) (group_same_hosts df) =
        map (summarise df) (filter (\<lambda>k'. k' = k) (group_keys df))"
    by (simp add: group_same_hosts_def filter_map o_def)
  also have "\<dots> = (if k \<in> set (group_keys df) then [summarise df k] else [])"
    by (simp add: filter_eq_distinct distinct_group_keys)
  finally show ?thesis using Some by simp
qed

lemma merge_rows_Cons:
  "merge_rows (l # left) right =
     (case filter (same_key l) right of
        [] \<Rightarrow> [with_summary l None None]
      | g # gs \<Rightarrow> map (\<lambda>m. with_summary l (Some (issues m)) (Some (years m))) (g # gs))
     @ merge_rows left right"
  by (simp add: merge_rows_def)


lemma merge_rows_groups:
  assumes "\<forall>l\<in>set left. \<forall>k. key_of l = Some k \<longrightarrow> k \<in> set (group_keys df)"
  shows "merge_rows left (group_same_hosts df) =
         map (\<lambda>l. case key_of l of
                None \<Rightarrow> with_summary l None None
              | Some k \<Rightarrow> with_summary l (Some (agg_join (map issue (group_rows df k))))
                           (Some (agg_join (map year (group_rows df k))))) left"
  using assms
proof (induction left)
  case Nil
  then show ?case by (simp add: merge_rows_def)
next
  case (Cons l left)
  then have ih: "merge_rows left (group_same_hosts df) =
         map (\<lambda>l. case key_of l of
                None \<Rightarrow> with_summary l None None
              | Some k \<Rightarrow> with_summary l (Some (agg_join (map issue (group_rows df k))))
                           (Some (agg_join (map year (group_rows df k))))) left"
    by simp
  show ?case
  proof (cases "key_of l")
    case None
    then show ?thesis
      by (simp add: merge_rows_Cons ih matches_of_row)
  next
    case (Some k)
    with Cons.prems have "k \<in> set (group_keys df)" by (cases k) auto
    with Some show ?thesis
      by (simp add: merge_rows_Cons ih matches_of_row issues_summarise years_summarise)
  qed
qed

text \<open>
  The key columns of a frame and of its groups have the same dtypes when both have rows: a
  group comes from a row whose key cells are all present.
\<close>

lemma text_dtype_present:
  "Some a \<in> set col \<Longrightarrow> text_dtype col = Str"
  by (auto simp: text_dtype_def list_all_iff)

lemma city_summarise: "\<exists>a. city (summarise df k) = Some a"
  by (cases k) (simp add: summarise_def)

lemma country_summarise: "\<exists>b. country (summarise df k) = Some b"
  by (cases k) (simp add: summarise_def)

lemma self_join_dtypes:
  "coerce_merge_keys (df_filter df) (group_same_hosts df) = Inr ()"
proof (cases "df = [] \<or> group_same_hosts df = []")
  case True
  then show ?thesis
    by (auto simp: coerce_merge_keys_def df_filter_def group_same_hosts_def group_keys_def
        map_filter_def key_dtypes_def text_dtype_def number_dtype_def)
next
  case False
  then have df: "df \<noteq> []" and gs: "group_same_hosts df \<noteq> []" by simp_all
  from gs obtain k where k: "k \<in> set (group_keys df)"
    by (cases "group_keys df") (auto simp: group_same_hosts_def)
  then obtain r where r: "r \<in> set df" and kr: "key_of r = Some k"
    by (auto simp: set_group_keys)
  obtain a b c d where "k = (a, b, c, d)" by (cases k)
  with kr have ca: "city r = Some a" and cb: "country r = Some b"
    by (simp_all add: key_of_Some_iff)
  from r ca have "Some a \<in> set (map city (df_filter df))"
    by (force simp: df_filter_def location_key.truncate_def)
  then have l1: "text_dtype (map city (df_filter df)) = Str"
    by (rule text_dtype_present)
  from r cb have "Some b \<in> set (map country (df_filter df))"
    by (force simp: df_filter_def location_key.truncate_def)
  then have l2: "text_dtype (map country (df_filter df)) = Str"
    by (rule text_dtype_present)
  from k obtain a' where "city (summarise df k) = Some a'" and "summarise df k \<in> set (group_same_hosts df)"
    using city_summarise [of df k] by (auto simp: group_same_hosts_def)
  then have "Some a' \<in> set (map city (group_same_hosts df))" by force
  then have r1: "text_dtype (map city (group_same_hosts df)) = Str"
    by (rule text_dtype_present)
  from k obtain b' where "country (summarise df k) = Some b'" and "summarise df k \<in> set (group_same_hosts df)"
    using country_summarise [of df k] by (auto simp: group_same_hosts_def)
  then have "Some b' \<in> set (map country (group_same_hosts df))" by force
  then have r2: "text_dtype (map country (group_same_hosts df)) = Str"
    by (rule text_dtype_present)
  have "key_dtypes (df_filter df) = key_dtypes (group_same_hosts df)"
    using df gs l1 l2 r1 r2 by (simp add: key_dtypes_def number_dtype_def df_filter_def)
  then show ?thesis by (simp add: coerce_merge_keys_def)
qed

lemma join_group_rows:
  "join_ejcs_grouped df (group_same_hosts df) = Inr (map (joined_row df) df)"
proof -
  have "\<forall>l\<in>set (df_filter df). \<forall>k. key_of l = Some k \<longrightarrow> k \<in> set (group_keys df)"
    by (auto simp: df_filter_def key_of_truncate set_group_keys)
  then have "merge_rows (df_filter df) (group_same_hosts df) = map (joined_row df) df"
    by (simp add: merge_rows_groups df_filter_def joined_row_def key_of_truncate o_def)
  then show ?thesis
    by (simp add: join_ejcs_grouped_def merge_left_def self_join_dtypes)
qed

lemma truncate_with_summary: "location_key.truncate (with_summary l i y) = l"
  by (simp add: with_summary_def location_key.truncate_def)

lemma truncate_joined_row: "location_key.truncate (joined_row df r) = location_key.truncate r"
  by (simp add: joined_row_def truncate_with_summary split: option.splits)

text \<open>
  Claim C1. The join of a data set with its own groups raises nothing and has as many
  rows as the data set, and its rows are in the order of the data set: the key columns of
  the output, row by row, are the key columns of the raw rows. No row is dropped, repeated
  or moved.
\<close>

theorem join_preserves_rows:
  "\<exists>out. join_ejcs_grouped df (group_same_hosts df) = Inr out \<and>
         length out = length df \<and>
         map location_key.truncate out = df_filter df"
  by (simp add: join_group_rows truncate_joined_row df_filter_def o_def)

text \<open>
  Claim C4, as amended. Grouping gives exactly one summary for every location key that
  occurs in the data set with none of its four cells missing, and no other summary: the
  keys of the summaries are distinct and are the complete keys of the rows. Keys are
  compared by equality. The strings \<open>issues\<close> and \<open>years\<close> of a summary are the
  \<open>str\<close> forms of the \<open>issue\<close> and \<open>year\<close> cells of the rows with its key, in the
  order of the data set, joined with \<open>" | "\<close>. A row with a missing key cell belongs to
  no summary. The scenario of the two editions in Paris is the witness: one summary
  with \<open>"1 | 2"\<close> and \<open>"1990 | 1995"\<close>, and both joined rows carry these strings.
\<close>

theorem group_same_hosts_summaries:
  "distinct (map key_of (group_same_hosts df)) \<and>
   set (map key_of (group_same_hosts df)) = set (map key_of df) - {None} \<and>
   (\<forall>g\<in>set (group_same_hosts df). \<exists>k.
      key_of g = Some k \<and>
      issues g = sep_join '' | '' (map (str \<circ> issue) (filter (\<lambda>r. key_of r = Some k) df)) \<and>
      years g = sep_join '' | '' (map (str \<circ> year) (filter (\<lambda>r. key_of r = Some k) df)))"
proof -
  have keys: "map key_of (group_same_hosts df) = map Some (group_keys df)"
    by (simp add: group_same_hosts_def key_of_summarise o_def)
  have d: "distinct (map key_of (group_same_hosts df))"
    by (simp add: keys distinct_map distinct_group_keys)
  have s: "set (map key_of (group_same_hosts df)) = set (map key_of df) - {None}"
  proof (rule set_eqI)
    fix x
    show "x \<in> set (map key_of (group_same_hosts df)) \<longleftrightarrow> x \<in> set (map key_of df) - {None}"
    proof (cases x)
      case None
      then show ?thesis by (auto simp: keys)
    next
      case (Some k)
      have "k \<in> set (group_keys df) \<longleftrightarrow> (\<exists>r\<in>set df. key_of r = Some k)"
        by (simp add: set_group_keys)
      also have "\<dots> \<longleftrightarrow> Some k \<in> key_of ` set df"
        by (auto simp: image_iff eq_commute)
      finally show ?thesis using Some by (auto simp: keys)
    qed
  qed
  have m: "\<exists>k. key_of g = Some k \<and>
      issues g = sep_join '' | '' (map (str \<circ> issue) (filter (\<lambda>r. key_of r = Some k) df)) \<and>
      years g = sep_join '' | '' (map (str \<circ> year) (filter (\<lambda>r. key_of r = Some k) df))"
    if "g \<in> set (group_same_hosts df)" for g
  proof -
    from that obtain k where g: "g = summarise df k"
      by (auto simp: group_same_hosts_def)
    have "key_of g = Some k" by (simp add: g key_of_summarise)
    moreover have "issues g = sep_join '' | '' (map (str \<circ> issue) (filter (\<lambda>r. key_of r = Some k) df))"
      by (simp add: g issues_summarise agg_join_def group_rows_def)
    moreover have "years g = sep_join '' | '' (map (str \<circ> year) (filter (\<lambda>r. key_of r = Some k) df))"
      by (simp add: g years_summarise agg_join_def group_rows_def)
    ultimately show ?thesis by blast
  qed
  from d s m show ?thesis by blast
qed

theorem group_same_hosts_summaries_witness:
  "group_same_hosts paris_rows =
     [\<lparr>city = Some ''Paris'', country = Some ''France'', latitude = Some 48.85,
       longitude = Some 2.35, issues = ''1 | 2'', years = ''1990 | 1995''\<rparr>] \<and>
   map_sum id (map issues) (join_ejcs_grouped paris_rows (group_same_hosts paris_rows)) =
     Inr [Some ''1 | 2'', Some ''1 | 2''] \<and>
   map_sum id (map years) (join_ejcs_grouped paris_rows (group_same_hosts paris_rows)) =
     Inr [Some ''1990 | 1995'', Some ''1990 | 1995''] \<and>
   distinct (map key_of (group_same_hosts paris_rows)) \<and>
   set (map key_of (group_same_hosts paris_rows)) = set (map key_of paris_rows) - {None}"
proof -
  have "group_same_hosts paris_rows =
     [\<lparr>city = Some ''Paris'', country = Some ''France'', latitude = Some 48.85,
       longitude = Some 2.35, issues = ''1 | 2'', years = ''1990 | 1995''\<rparr>]"
    by code_simp
  moreover have "map_sum id (map issues) (join_ejcs_grouped paris_rows (group_same_hosts paris_rows)) =
     Inr [Some ''1 | 2'', Some ''1 | 2'']"
    by code_simp
  moreover have "map_sum id (map years) (join_ejcs_grouped paris_rows (group_same_hosts paris_rows)) =
     Inr [Some ''1990 | 1995'', Some ''1990 | 1995'']"
    by code_simp
  ultimately show ?thesis
    using group_same_hosts_summaries [of paris_rows] by simp
qed

text \<open>
  The claim as it is written, one summary for every distinct key of every data set, fails
  on a data set with a missing latitude: its two rows have two distinct keys, and
  grouping returns the one summary of the complete key.
\<close>

theorem group_same_hosts_missing_key_counterexample:
  "length (remdups (df_filter partial_rows)) = 2 \<and>
   group_same_hosts partial_rows =
     [\<lparr>city = Some ''Paris'', country = Some ''France'', latitude = Some 48.85,
       longitude = Some 2.35, issues = ''1'', years = ''1990''\<rparr>]"
  by code_simp




subsection \<open>The prepare step\<close>

lemma prepare_ejcs_rows:
  assumes "pd_read_csv L w filename = Inr raw" and "colors \<noteq> []"
  shows "prepare_ejcs L w filename colors =
           Inr (map (\<lambda>(r, c). summary_row.extend r (annotated.fields c))
                  (zip (map (joined_row raw) raw)
                     (concat (replicate (length raw div length colors) colors) @
                      take (length raw mod length colors) colors)))"
proof -
  let ?ys = "concat (replicate (length raw div length colors) colors) @
             take (length raw mod length colors) colors"
  have run: "extend_colors colors (int (length raw)) = Inr ?ys"
    using assms(2) by (rule extend_colors_run)
  have len: "length ?ys = length raw"
    using assms(2) by (rule cycle_length)
  have "assign_color (map (joined_row raw) raw) ?ys =
          Inr (map (\<lambda>(r, c). summary_row.extend r (annotated.fields c))
                 (zip (map (joined_row raw) raw) ?ys))"
    using len by (simp add: assign_color_def del: length_append)
  with assms(1) run show ?thesis
    by (simp add: prepare_ejcs_def Let_def join_group_rows)
qed

lemma annotated_row:
  "summary_row.extend (joined_row df r) (annotated.fields c) =
     \<lparr>city = city r, country = country r, latitude = latitude r, longitude = longitude r,
      issues = map_option (\<lambda>k. agg_join (map issue (group_rows df k))) (key_of r),
      years = map_option (\<lambda>k. agg_join (map year (group_rows df k))) (key_of r),
      color = c\<rparr>"
  by (simp add: joined_row_def with_summary_def summary_row.extend_def annotated.fields_def
      location_key.truncate_def split: option.splits)

lemma prepare_ejcs_nth:
  assumes "pd_read_csv L w filename = Inr raw" and "colors \<noteq> []"
  shows "\<exists>out. prepare_ejcs L w filename colors = Inr out \<and> length out = length raw \<and>
           (\<forall>i<length raw. out ! i =
              \<lparr>city = city (raw ! i), country = country (raw ! i),
               latitude = latitude (raw ! i), longitude = longitude (raw ! i),
               issues = map_option (\<lambda>k. agg_join (map issue (group_rows raw k))) (key_of (raw ! i)),
               years = map_option (\<lambda>k. agg_join (map year (group_rows raw k))) (key_of (raw ! i)),
               color = colors ! (i mod length colors)\<rparr>)"
proof -
  let ?ys = "concat (replicate (length raw div length colors) colors) @
             take (length raw mod length colors) colors"
  let ?out = "map (\<lambda>(r, c). summary_row.extend r (annotated.fields c))
                (zip (map (joined_row raw) raw) ?ys)"
  have len: "length ?ys = length raw"
    using assms(2) by (rule cycle_length)
  have run: "prepare_ejcs L w filename colors = Inr ?out"
    using assms by (rule prepare_ejcs_rows)
  have "length ?out = length raw" using len by simp
  moreover have "?out ! i =
      \<lparr>city = city (raw ! i), country = country (raw ! i),
       latitude = latitude (raw ! i), longitude = longitude (raw ! i),
       issues = map_option (\<lambda>k. agg_join (map issue (group_rows raw k))) (key_of (raw ! i)),
       years = map_option (\<lambda>k. agg_join (map year (group_rows raw k))) (key_of (raw ! i)),
       color = colors ! (i mod length colors)\<rparr>" if "i < length raw" for i
  proof -
    from that len have "?out ! i = summary_row.extend (joined_row raw (raw ! i)) (annotated.fields (?ys ! i))"
      by simp
    also have "?ys ! i = colors ! (i mod length colors)"
      using assms(2) that by (rule cycle_nth)
    finally show ?thesis by (simp only: annotated_row)
  qed
  ultimately show ?thesis using run by blast
qed

text \<open>
  Claim C6. The cycler raises \<open>ZeroDivisionError\<close> on an empty palette, whatever the
  count is, and never returns a list then. The exception is not caught: the prepare step
  raises it when the data set has been read, and a run whose palette file holds no colour
  ends with it, with nothing shown and no file written.
\<close>

theorem extend_colors_empty_palette:
  "extend_colors [] n = Inl ZeroDivisionError \<and>
   (pd_read_csv L w filename = Inr raw \<longrightarrow>
      prepare_ejcs L w filename [] = Inl ZeroDivisionError) \<and>
   (read_colors L w filename_colors = Inr [] \<and> pd_read_csv L w filename_ejcs = Inr raw' \<longrightarrow>
      main L w = (Inl ZeroDivisionError, w))"
proof -
  have cycler: "extend_colors [] k = Inl ZeroDivisionError" for k
    by (simp add: extend_colors_def divmod_def)
  have prepare: "prepare_ejcs L w f [] = Inl ZeroDivisionError"
    if "pd_read_csv L w f = Inr rows" for f rows
    using that by (simp add: prepare_ejcs_def Let_def cycler join_group_rows)
  have run: "main L w = (Inl ZeroDivisionError, w)"
    if "read_colors L w filename_colors = Inr []" and "pd_read_csv L w filename_ejcs = Inr raw'"
    using that by (simp add: main_def prepare)
  from cycler prepare run show ?thesis by blast
qed

theorem extend_colors_empty_palette_witness:
  "extend_colors ([]::json list) 7 = Inl ZeroDivisionError \<and>
   pd_read_csv (scenario_library (JArr []) paris_rows) scenario_world filename_ejcs = Inr paris_rows \<and>
   read_colors (scenario_library (JArr []) paris_rows) scenario_world filename_colors = Inr [] \<and>
   prepare_ejcs (scenario_library (JArr []) paris_rows) scenario_world filename_ejcs ([]::json list) =
     Inl ZeroDivisionError \<and>
   main (scenario_library (JArr []) paris_rows) scenario_world = (Inl ZeroDivisionError, scenario_world)"
proof -
  let ?L = "scenario_library (JArr []) paris_rows"
  have csv: "pd_read_csv ?L scenario_world filename_ejcs = Inr paris_rows"
    by (simp add: pd_read_csv_def open_read_def scenario_library_def scenario_world_def
        filename_ejcs_def)
  have pal: "read_colors ?L scenario_world filename_colors = Inr []"
    by (simp add: read_colors_def open_read_def scenario_library_def scenario_world_def
        filename_colors_def)
  from extend_colors_empty_palette
    [where L = ?L and w = scenario_world and n = 7 and filename = filename_ejcs
       and raw = paris_rows and raw' = paris_rows]
    csv pal
  show ?thesis by simp
qed

lemma scenario_csv:
  "pd_read_csv (scenario_library palette rows) scenario_world filename_ejcs = Inr rows"
  by (simp add: pd_read_csv_def open_read_def scenario_library_def scenario_world_def
      filename_ejcs_def)

text \<open>
  Claim C3, as amended. When the data set has been read and the palette is not empty, the
  prepare step returns one row for every raw record, in the order of the data set. Row
  \<open>i\<close> has the four key cells of raw record \<open>i\<close>, the strings \<open>issues\<close> and \<open>years\<close> of
  the summary of its key (missing cells when a key cell of the record is missing) and its
  colour, and nothing else: the \<open>issue\<close> and \<open>year\<close> cells of the record itself are not
  in the row.
\<close>

theorem prepare_ejcs_row:
  assumes "pd_read_csv L w filename = Inr raw" and "colors \<noteq> []"
  shows "\<exists>out. prepare_ejcs L w filename colors = Inr out \<and> length out = length raw \<and>
           (\<forall>i<length raw. out ! i =
              \<lparr>city = city (raw ! i), country = country (raw ! i),
               latitude = latitude (raw ! i), longitude = longitude (raw ! i),
               issues = map_option (\<lambda>k. agg_join (map issue (group_rows raw k))) (key_of (raw ! i)),
               years = map_option (\<lambda>k. agg_join (map year (group_rows raw k))) (key_of (raw ! i)),
               color = colors ! (i mod length colors)\<rparr>)"
  using assms by (rule prepare_ejcs_nth)

theorem prepare_ejcs_row_witness:
  "pd_read_csv (scenario_library red_green paris_rows) scenario_world filename_ejcs = Inr paris_rows \<and>
   [''red'', ''green''] \<noteq> [] \<and>
   (\<exists>out. prepare_ejcs (scenario_library red_green paris_rows) scenario_world filename_ejcs
            [''red'', ''green''] = Inr out \<and>
          length out = 2 \<and>
          out ! 1 = \<lparr>city = Some ''Paris'', country = Some ''France'', latitude = Some 48.85,
                     longitude = Some 2.35, issues = Some ''1 | 2'', years = Some ''1990 | 1995'',
                     color = ''green''\<rparr>)"
proof -
  have ne: "[''red'', ''green''] \<noteq> []" by simp
  have len: "length paris_rows = 2" by (simp add: paris_rows_def)
  from prepare_ejcs_row [OF scenario_csv ne, of red_green paris_rows] obtain out where
    run: "prepare_ejcs (scenario_library red_green paris_rows) scenario_world filename_ejcs
            [''red'', ''green''] = Inr out" and
    n: "length out = length paris_rows" and
    c: "\<forall>i<length paris_rows. out ! i =
              \<lparr>city = city (paris_rows ! i), country = country (paris_rows ! i),
               latitude = latitude (paris_rows ! i), longitude = longitude (paris_rows ! i),
               issues = map_option (\<lambda>k. agg_join (map issue (group_rows paris_rows k)))
                          (key_of (paris_rows ! i)),
               years = map_option (\<lambda>k. agg_join (map year (group_rows paris_rows k)))
                         (key_of (paris_rows ! i)),
               color = [''red'', ''green''] ! (i mod length [''red'', ''green''])\<rparr>"
    by blast
  from c len have "out ! 1 =
              \<lparr>city = city (paris_rows ! 1), country = country (paris_rows ! 1),
               latitude = latitude (paris_rows ! 1), longitude = longitude (paris_rows ! 1),
               issues = map_option (\<lambda>k. agg_join (map issue (group_rows paris_rows k)))
                          (key_of (paris_rows ! 1)),
               years = map_option (\<lambda>k. agg_join (map year (group_rows paris_rows k)))
                         (key_of (paris_rows ! 1)),
               color = [''red'', ''green''] ! (1 mod length [''red'', ''green''])\<rparr>"
    by simp
  also have "\<dots> = \<lparr>city = Some ''Paris'', country = Some ''France'', latitude = Some 48.85,
                     longitude = Some 2.35, issues = Some ''1 | 2'', years = Some ''1990 | 1995'',
                     color = ''green''\<rparr>"
    by code_simp
  finally show ?thesis using run n len scenario_csv by simp
qed

text \<open>
  The claim as it is written fails on the two editions in Paris: with a palette of one
  colour the two rows of the output are the same row, with \<open>"1 | 2"\<close> and
  \<open>"1990 | 1995"\<close>, while the raw records have the issues 1 and 2 and the years 1990
  and 1995. The output rows do not hold the records' own \<open>issue\<close> and \<open>year\<close>.
\<close>

theorem prepare_ejcs_own_issue_counterexample:
  "prepare_ejcs (scenario_library red_green paris_rows) scenario_world filename_ejcs [''red''] =
    Inr [\<lparr>city = Some ''Paris'', country = Some ''France'', latitude = Some 48.85,
          longitude = Some 2.35, issues = Some ''1 | 2'', years = Some ''1990 | 1995'',
          color = ''red''\<rparr>,
         \<lparr>city = Some ''Paris'', country = Some ''France'', latitude = Some 48.85,
          longitude = Some 2.35, issues = Some ''1 | 2'', years = Some ''1990 | 1995'',
          color = ''red''\<rparr>] \<and>
   map issue paris_rows = [IntV 1, IntV 2] \<and>
   map year paris_rows = [IntV 1990, IntV 1995]"
  by code_simp

text \<open>
  Claim C5. In the prepare step the colours go by position: with a palette that is not
  empty, row \<open>i\<close> of the output, counted from 0 in the order of the raw data set, has
  the colour \<open>palette[i mod len(palette)]\<close>. The witness is a data set of two rows with
  a palette of one colour, which is used again for the second row.
\<close>

theorem prepare_ejcs_colors:
  assumes "pd_read_csv L w filename = Inr raw" and "colors \<noteq> []"
  shows "\<exists>out. prepare_ejcs L w filename colors = Inr out \<and> length out = length raw \<and>
           (\<forall>i<length raw. color (out ! i) = colors ! (i mod length colors))"
proof -
  from prepare_ejcs_nth [OF assms] obtain out where
    run: "prepare_ejcs L w filename colors = Inr out" and len: "length out = length raw" and
    nth: "\<forall>i<length raw. out ! i =
              \<lparr>city = city (raw ! i), country = country (raw ! i),
               latitude = latitude (raw ! i), longitude = longitude (raw ! i),
               issues = map_option (\<lambda>k. agg_join (map issue (group_rows raw k))) (key_of (raw ! i)),
               years = map_option (\<lambda>k. agg_join (map year (group_rows raw k))) (key_of (raw ! i)),
               color = colors ! (i mod length colors)\<rparr>"
    by blast
  have "color (out ! i) = colors ! (i mod length colors)" if "i < length raw" for i
    using nth that by simp
  with run len show ?thesis by blast
qed

theorem prepare_ejcs_colors_witness:
  "pd_read_csv (scenario_library red_green paris_rows) scenario_world filename_ejcs = Inr paris_rows \<and>
   [''red''] \<noteq> [] \<and>
   (\<exists>out. prepare_ejcs (scenario_library red_green paris_rows) scenario_world filename_ejcs [''red'']
            = Inr out \<and>
          length out = 2 \<and> color (out ! 0) = ''red'' \<and> color (out ! 1) = ''red'')"
proof -
  have ne: "[''red''] \<noteq> []" by simp
  have len: "length paris_rows = 2" by (simp add: paris_rows_def)
  from prepare_ejcs_colors [OF scenario_csv ne, of red_green paris_rows] obtain out where
    run: "prepare_ejcs (scenario_library red_green paris_rows) scenario_world filename_ejcs [''red'']
            = Inr out" and
    n: "length out = length paris_rows" and
    c: "\<forall>i<length paris_rows. color (out ! i) = [''red''] ! (i mod length [''red''])"
    by blast
  from c len have "color (out ! 0) = ''red''" and "color (out ! 1) = ''red''" by simp_all
  with run n len scenario_csv show ?thesis by simp
qed

subsection \<open>The run\<close>

lemma write_file_other:
  "path \<noteq> filename \<Longrightarrow> files (snd (write_file path txt w)) filename = files w filename"
  by (simp add: write_file_def)

lemma write_html_other:
  "path \<noteq> filename \<Longrightarrow> files (snd (write_html L fig path w)) filename = files w filename"
  by (simp add: write_html_def write_file_other)

lemma write_image_other:
  "path \<noteq> filename \<Longrightarrow>
   files (snd (write_image L fig path width height w)) filename = files w filename"
  by (simp add: write_image_def write_file_other)

lemma create_output_other:
  assumes "output_folder @ ''/'' @ ''ejc_map'' @ ''.html'' \<noteq> filename"
    and "''index.html'' \<noteq> filename"
    and "output_folder @ ''/'' @ ''ejc_map'' @ ''.webp'' \<noteq> filename"
  shows "files (snd (create_output L fig width height output_folder show_figure save_figure w)) filename
         = files w filename"
proof -
  let ?fig = "fig\<lparr>fig_width := Some width, fig_height := Some height\<rparr>"
  let ?w1 = "if show_figure then w\<lparr>shown := shown w + 1\<rparr> else w"
  let ?p1 = "output_folder @ ''/'' @ ''ejc_map'' @ ''.html''"
  let ?p3 = "output_folder @ ''/'' @ ''ejc_map'' @ ''.webp''"
  have w1: "files ?w1 filename = files w filename" by simp
  show ?thesis
  proof (cases save_figure)
    case False
    then show ?thesis by (simp add: create_output_def Let_def)
  next
    case True
    obtain r2 w2 where s1: "write_html L ?fig ?p1 ?w1 = (r2, w2)"
      by (cases "write_html L ?fig ?p1 ?w1")
    obtain r3 w3 where s2: "write_html L ?fig ''index.html'' w2 = (r3, w3)"
      by (cases "write_html L ?fig ''index.html'' w2")
    obtain r4 w4 where s3: "write_image L ?fig ?p3 width height w3 = (r4, w4)"
      by (cases "write_image L ?fig ?p3 width height w3")
    have f2: "files w2 filename = files w filename"
      using write_html_other [OF assms(1), of L ?fig ?w1] s1 w1 by simp
    have f3: "files w3 filename = files w filename"
      using write_html_other [OF assms(2), of L ?fig w2] s2 f2 by simp
    have f4: "files w4 filename = files w filename"
      using write_image_other [OF assms(3), of L ?fig width height w3] s3 f3 by simp
    have "snd (create_output L fig width height output_folder show_figure save_figure w) \<in> {w2, w3, w4}"
      using True s1 s2 s3
      by (cases r2; cases r3) (simp_all add: create_output_def Let_def)
    with f2 f3 f4 show ?thesis by auto
  qed
qed

lemma main_keeps_dataset: "files (snd (main L w)) filename_ejcs = files w filename_ejcs"
proof (cases "read_colors L w filename_colors")
  case (Inl e)
  then show ?thesis by (simp add: main_def)
next
  case (Inr colors)
  show ?thesis
  proof (cases "prepare_ejcs L w filename_ejcs colors")
    case (Inl e)
    with Inr show ?thesis by (simp add: main_def)
  next
    case df: (Inr df_ejcs)
    have "files (snd (create_output L (create_map df_ejcs) 1000 800 ''output'' True True w))
            filename_ejcs = files w filename_ejcs"
      by (rule create_output_other) (simp_all add: filename_ejcs_def)
    with Inr df show ?thesis by (simp add: main_def)
  qed
qed

lemma main_keeps_palette: "files (snd (main L w)) filename_colors = files w filename_colors"
proof (cases "read_colors L w filename_colors")
  case (Inl e)
  then show ?thesis by (simp add: main_def)
next
  case (Inr colors)
  show ?thesis
  proof (cases "prepare_ejcs L w filename_ejcs colors")
    case (Inl e)
    with Inr show ?thesis by (simp add: main_def)
  next
    case df: (Inr df_ejcs)
    have "files (snd (create_output L (create_map df_ejcs) 1000 800 ''output'' True True w))
            filename_colors = files w filename_colors"
      by (rule create_output_other) (simp_all add: filename_colors_def)
    with Inr df show ?thesis by (simp add: main_def)
  qed
qed

lemma prepare_ejcs_files:
  "files w' filename = files w filename \<Longrightarrow>
   prepare_ejcs L w' filename colors = prepare_ejcs L w filename colors"
  by (simp add: prepare_ejcs_def pd_read_csv_def open_read_def)

lemma read_colors_files:
  "files w' filename = files w filename \<Longrightarrow>
   read_colors L w' filename = read_colors L w filename"
  by (simp add: read_colors_def open_read_def)

text \<open>
  Claim C8. When the palette file is missing, the run ends with \<open>FileNotFoundError\<close>, an
  IO error, and the world is as it was: the palette is read first, before the data set is
  prepared, before the figure is rendered and shown, and before any file is written, so no
  output file is created, whole or in part.
\<close>

theorem main_palette_missing:
  "files w filename_colors = None \<Longrightarrow> main L w = (Inl FileNotFoundError, w)"
  by (simp add: main_def read_colors_def open_read_def)

theorem main_palette_missing_witness:
  "files no_palette_world filename_colors = None \<and>
   main (scenario_library red_green paris_rows) no_palette_world =
     (Inl FileNotFoundError, no_palette_world)"
proof -
  have missing: "files no_palette_world filename_colors = None"
    by (simp add: no_palette_world_def filename_colors_def)
  from main_palette_missing [OF missing] missing show ?thesis by simp
qed

text \<open>
  Claim C9. The result of the prepare step is a function of the palette and of the text of
  the data set file: two runs in worlds that agree on this file give the same result, be it
  the same rows in the same order with the same strings and colours, or the same exception.
  A run of the whole program leaves the data set file and the palette file as they were, so a
  prepare step after it gives what the prepare step before it gave, and the palette is
  read as before. In the witness the second world is the one that a run of the program
  leaves, with its output file \<open>index.html\<close>.
\<close>

theorem prepare_ejcs_idempotent:
  "(files w' filename = files w filename \<longrightarrow>
      prepare_ejcs L w' filename colors = prepare_ejcs L w filename colors) \<and>
   prepare_ejcs L (snd (main L w)) filename_ejcs colors = prepare_ejcs L w filename_ejcs colors \<and>
   read_colors L (snd (main L w)) filename_colors = read_colors L w filename_colors"
proof -
  have a: "files w' filename = files w filename \<longrightarrow>
      prepare_ejcs L w' filename colors = prepare_ejcs L w filename colors"
    using prepare_ejcs_files [of w' filename w L colors] by blast
  have b: "prepare_ejcs L (snd (main L w)) filename_ejcs colors = prepare_ejcs L w filename_ejcs colors"
    by (rule prepare_ejcs_files) (rule main_keeps_dataset)
  have c: "read_colors L (snd (main L w)) filename_colors = read_colors L w filename_colors"
    by (rule read_colors_files) (rule main_keeps_palette)
  from a b c show ?thesis by blast
qed

theorem prepare_ejcs_idempotent_witness:
  "files (snd (main (scenario_library red_green paris_rows) scenario_world)) filename_ejcs =
     files scenario_world filename_ejcs \<and>
   files scenario_world ''index.html'' = None \<and>
   files (snd (main (scenario_library red_green paris_rows) scenario_world)) ''index.html'' =
     Some ''<div id=b2>'' \<and>
   prepare_ejcs (scenario_library red_green paris_rows)
       (snd (main (scenario_library red_green paris_rows) scenario_world)) filename_ejcs [''red''] =
     prepare_ejcs (scenario_library red_green paris_rows) scenario_world filename_ejcs [''red'']"
proof -
  let ?L = "scenario_library red_green paris_rows"
  let ?w' = "snd (main ?L scenario_world)"
  have same: "files ?w' filename_ejcs = files scenario_world filename_ejcs"
    by code_simp
  have before: "files scenario_world ''index.html'' = None"
    by code_simp
  have written: "files ?w' ''index.html'' = Some ''<div id=b2>''"
    by code_simp
  from prepare_ejcs_idempotent [of ?w' filename_ejcs scenario_world ?L "[''red'']"] same
  have "prepare_ejcs ?L ?w' filename_ejcs [''red''] = prepare_ejcs ?L scenario_world filename_ejcs [''red'']"
    by blast
  with same written before show ?thesis by simp
qed

text \<open>
  Claim C10. When the data set has no record and the palette is not empty, the prepare
  step returns the empty frame and raises nothing: grouping gives no summary, the join no
  row, and the cycler, called with the count 0, no colour.
\<close>

theorem prepare_ejcs_empty:
  assumes "pd_read_csv L w filename = Inr raw" and "raw = []" and "colors \<noteq> []"
  shows "group_same_hosts raw = [] \<and>
         join_ejcs_grouped raw (group_same_hosts raw) = Inr [] \<and>
         extend_colors colors (int (length raw)) = Inr [] \<and>
         prepare_ejcs L w filename colors = Inr []"
proof -
  have g: "group_same_hosts raw = []"
    using assms(2) by (simp add: group_same_hosts_def group_keys_def map_filter_def)
  have j: "join_ejcs_grouped raw (group_same_hosts raw) = Inr []"
    using assms(2) by (simp add: join_group_rows)
  have c: "extend_colors colors (int (length raw)) = Inr []"
    using assms(2,3) by (simp add: extend_colors_def divmod_def list_mul_def slice_to_def)
  have "prepare_ejcs L w filename colors = Inr []"
    using assms(1,2) j c by (simp add: prepare_ejcs_def Let_def assign_color_def)
  with g j c show ?thesis by simp
qed

theorem prepare_ejcs_empty_witness:
  "pd_read_csv (scenario_library red_green []) scenario_world filename_ejcs = Inr [] \<and>
   [JStr ''red'', JStr ''green''] \<noteq> [] \<and>
   group_same_hosts ([] :: real event_record list) = [] \<and>
   extend_colors [JStr ''red'', JStr ''green''] 0 = Inr [] \<and>
   prepare_ejcs (scenario_library red_green []) scenario_world filename_ejcs
     [JStr ''red'', JStr ''green''] = Inr []"
proof -
  have csv: "pd_read_csv (scenario_library red_green []) scenario_world filename_ejcs = Inr []"
    by (simp add: pd_read_csv_def open_read_def scenario_library_def scenario_world_def
        filename_ejcs_def)
  have ne: "[JStr ''red'', JStr ''green''] \<noteq> []" by simp
  from prepare_ejcs_empty [OF csv refl ne] csv show ?thesis by simp
qed

end
